theory Spec2Isabelle
  imports Main "HOL-Library.AList"
begin

section \<open>The database renamer of \<^verbatim>\<open>src/main.py\<close>\<close>

text \<open>
  The program renames the tables and columns of an SQLite database to numbered generic
  names. Its three working functions, \<^verbatim>\<open>rename_tables\<close>, \<^verbatim>\<open>rename_columns\<close> and
  \<^verbatim>\<open>handle_foreign_key_constraints\<close>, talk to the outside through two channels only:
  the cursor (\<^verbatim>\<open>cursor.execute\<close>, \<^verbatim>\<open>cursor.fetchall\<close>) and the logger. Each function is
  embedded as a HOL function that takes the behaviour of the database behind the cursor
  as a parameter, passes the database state along, and returns the list of events
  (cursor calls and log lines) in the order in which the source performs them. A call
  of the cursor ends in one of three ways: with rows, with an \<^verbatim>\<open>sqlite3.Error\<close>, which
  the handlers of the renaming functions catch, or with an exception of another class,
  which passes them and reaches the handlers of \<^verbatim>\<open>main\<close>.
\<close>

subsection \<open>Decimal rendering of the loop index\<close>

text \<open>
  \<^verbatim>\<open>f"{prefix}{i+1}"\<close> renders \<^verbatim>\<open>i+1\<close> in decimal. The index comes from
  \<^verbatim>\<open>enumerate\<close>, so it is never negative and is modelled as a natural number.
\<close>

definition digit_char :: "nat \<Rightarrow> char" where
  "digit_char d = ''0123456789'' ! d"

fun str :: "nat \<Rightarrow> string" where
  "str n = (if n < 10 then [digit_char n] else str (n div 10) @ [digit_char (n mod 10)])"

declare str.simps [simp del]

subsection \<open>Text and its encoding\<close>

text \<open>
  A Python string is modelled by the bytes that \<^verbatim>\<open>os.fsencode\<close> gives for it: UTF-8,
  with a lone surrogate \<^verbatim>\<open>U+DC80\<close> to \<^verbatim>\<open>U+DCFF\<close> standing as the single byte \<^verbatim>\<open>80\<close> to
  \<^verbatim>\<open>FF\<close> it escapes. This is how a command-line argument holding a byte that is not
  UTF-8 arrives in \<^verbatim>\<open>args.prefix_table\<close> and \<^verbatim>\<open>args.prefix_column\<close>. A string is free
  of lone surrogates exactly when its bytes are well-formed UTF-8.
\<close>

definition byte :: "char \<Rightarrow> nat" where
  "byte c = of_char c"

definition continuation :: "char \<Rightarrow> bool" where
  "continuation c = (0x80 \<le> byte c \<and> byte c \<le> 0xBF)"

text \<open>
  The number of bytes of the well-formed UTF-8 sequence that starts the text, and 0 if
  none does (overlong forms, encoded surrogates and code points beyond \<^verbatim>\<open>U+10FFFF\<close> are
  not well-formed).
\<close>

fun utf8_width :: "string \<Rightarrow> nat" where
  "utf8_width [] = 0"
| "utf8_width (c # cs) =
     (let n = byte c in
      if n < 0x80 then 1
      else if 0xC2 \<le> n \<and> n \<le> 0xDF then
        (case cs of a # r \<Rightarrow> if continuation a then 2 else 0 | [] \<Rightarrow> 0)
      else if 0xE0 \<le> n \<and> n \<le> 0xEF then
        (case cs of
           a # b # r \<Rightarrow>
             if (if n = 0xE0 then 0xA0 \<le> byte a \<and> byte a \<le> 0xBF
                 else if n = 0xED then 0x80 \<le> byte a \<and> byte a \<le> 0x9F
                 else continuation a) \<and> continuation b
             then 3 else 0
         | _ \<Rightarrow> 0)
      else if 0xF0 \<le> n \<and> n \<le> 0xF4 then
        (case cs of
           a # b # d # r \<Rightarrow>
             if (if n = 0xF0 then 0x90 \<le> byte a \<and> byte a \<le> 0xBF
                 else if n = 0xF4 then 0x80 \<le> byte a \<and> byte a \<le> 0x8F
                 else continuation a) \<and> continuation b \<and> continuation d
             then 4 else 0
         | _ \<Rightarrow> 0)
      else 0)"

text \<open>
  The first lone surrogate of a text: its position, counted in characters as Python
  counts it, and the text from there on. \<open>i\<close> characters have been passed, and \<open>k\<close>
  bytes of the character under way are still to be skipped.
\<close>

fun first_surrogate :: "nat \<Rightarrow> nat \<Rightarrow> string \<Rightarrow> (nat \<times> string) option" where
  "first_surrogate i k [] = None"
| "first_surrogate i (Suc k) (c # cs) = first_surrogate i k cs"
| "first_surrogate i 0 (c # cs) =
     (case utf8_width (c # cs) of
        0 \<Rightarrow> Some (i, c # cs)
      | Suc w \<Rightarrow> first_surrogate (i + 1) w cs)"

text \<open>The number of lone surrogates in a row at the head of a text.\<close>

fun surrogate_run :: "string \<Rightarrow> nat" where
  "surrogate_run [] = 0"
| "surrogate_run (c # cs) = (if utf8_width (c # cs) = 0 then Suc (surrogate_run cs) else 0)"

text \<open>A name between apostrophes, as in \<^verbatim>\<open>'{old_name}'\<close>.\<close>

definition apos :: "string \<Rightarrow> string" where
  "apos s = [CHR 0x27] @ s @ [CHR 0x27]"

definition hex_digit :: "nat \<Rightarrow> char" where
  "hex_digit d = ''0123456789abcdef'' ! d"

text \<open>
  \<^verbatim>\<open>str(e)\<close> of the \<^verbatim>\<open>UnicodeEncodeError\<close> that encoding a text raises when \<open>n\<close> lone
  surrogates in a row start at position \<open>i\<close>, the first of them escaping the byte \<open>c\<close>.
\<close>

definition msg_surrogate :: "nat \<Rightarrow> nat \<Rightarrow> char \<Rightarrow> string" where
  "msg_surrogate i n c =
     apos ''utf-8'' @ '' codec can'' @ [CHR 0x27] @ ''t encode ''
       @ (if n = 1
          then ''character ''
                 @ apos ([CHR 0x5C] @ ''udc''
                           @ [hex_digit (byte c div 16), hex_digit (byte c mod 16)])
                 @ '' in position '' @ str i
          else ''characters in position '' @ str i @ ''-'' @ str (i + n - 1))
       @ '': surrogates not allowed''"

text \<open>The encoding step: the text of the exception, and \<open>None\<close> when the text can be encoded.\<close>

definition encode_error :: "string \<Rightarrow> string option" where
  "encode_error s =
     map_option (\<lambda>(i, rest). msg_surrogate i (surrogate_run rest) (hd rest))
       (first_surrogate 0 0 s)"

subsection \<open>Cursor, rows, events\<close>

text \<open>
  A row is the tuple of its cells, each rendered as text. The database behind the cursor
  answers a statement with an \<^verbatim>\<open>sqlite3.Error\<close> (\<open>Inl\<close>, with the text of the exception)
  or with rows (\<open>Inr\<close>), and moves to a new state. It is a parameter of the model.
\<close>

type_synonym row = "string list"
type_synonym response = "string + row list"
type_synonym 'db cursor = "'db \<Rightarrow> string \<Rightarrow> response \<times> 'db"

text \<open>
  The exceptions that are not an \<^verbatim>\<open>sqlite3.Error\<close>, which no handler of the renaming
  functions catches: the \<^verbatim>\<open>IndexError\<close> of \<^verbatim>\<open>row[k]\<close>, and the \<^verbatim>\<open>UnicodeEncodeError\<close>
  of a statement that cannot be encoded, with its text.
\<close>

datatype exn = IndexError | UnicodeEncodeError string

text \<open>
  \<^verbatim>\<open>cursor.execute(sql)\<close> followed by \<^verbatim>\<open>cursor.fetchall()\<close>, as the program sees it.
  The statement is encoded first; if that fails the exception is raised before the
  database is reached, and the database stays as it is. Otherwise the database answers.
\<close>

datatype answer = Rows "row list" | Sqlite3_Error string | Other_Error exn

definition execute :: "'db cursor \<Rightarrow> 'db \<Rightarrow> string \<Rightarrow> answer \<times> 'db" where
  "execute cursor db sql =
     (case encode_error sql of
        Some msg \<Rightarrow> (Other_Error (UnicodeEncodeError msg), db)
      | None \<Rightarrow>
          (case cursor db sql of
             (Inl e, db') \<Rightarrow> (Sqlite3_Error e, db')
           | (Inr rows, db') \<Rightarrow> (Rows rows, db')))"

datatype level = INFO | WARNING | ERROR

text \<open>What the program does to the outside: calls of the cursor with their outcome,
  commits, and log lines.\<close>

datatype event =
    Execute string answer
  | Commit "string option"
  | Log level string

text \<open>
  A Python \<^verbatim>\<open>dict\<close> keeps insertion order, and assigning to a key that is already present
  replaces the value in place: an association list with \<^const>\<open>AList.update\<close>.
\<close>

type_synonym mapping = "(string \<times> string) list"

text \<open>\<^verbatim>\<open>[row[k] for row in cursor.fetchall()]\<close>; a row with too few cells raises.\<close>

fun column :: "nat \<Rightarrow> row list \<Rightarrow> exn + string list" where
  "column k [] = Inr []"
| "column k (r # rs) =
     (if k < length r
      then (case column k rs of Inl e \<Rightarrow> Inl e | Inr ns \<Rightarrow> Inr (r ! k # ns))
      else Inl IndexError)"

fun statements :: "event list \<Rightarrow> string list" where
  "statements [] = []"
| "statements (Execute sql r # es) = sql # statements es"
| "statements (e # es) = statements es"

fun log_lines :: "event list \<Rightarrow> (level \<times> string) list" where
  "log_lines [] = []"
| "log_lines (Log l m # es) = (l, m) # log_lines es"
| "log_lines (e # es) = log_lines es"

fun commits :: "event list \<Rightarrow> nat" where
  "commits [] = 0"
| "commits (Commit r # es) = Suc (commits es)"
| "commits (e # es) = commits es"

subsection \<open>The SQL texts and log messages, as the f-strings build them\<close>

definition select_tables_sql :: string where
  \<open>select_tables_sql = ''SELECT name FROM sqlite_master WHERE type='table';''\<close>

definition alter_table_sql :: "string \<Rightarrow> string \<Rightarrow> string" where
  \<open>alter_table_sql old_name new_name =
     ''ALTER TABLE "'' @ old_name @ ''" RENAME TO "'' @ new_name @ ''";''\<close>

definition table_info_sql :: "string \<Rightarrow> string" where
  \<open>table_info_sql table_name = ''PRAGMA table_info("'' @ table_name @ ''");''\<close>

definition alter_column_sql :: "string \<Rightarrow> string \<Rightarrow> string \<Rightarrow> string" where
  \<open>alter_column_sql table_name old_name new_name =
     ''ALTER TABLE "'' @ table_name @ ''" RENAME COLUMN "'' @ old_name
       @ ''" TO "'' @ new_name @ ''";''\<close>

definition msg_renamed_table :: "string \<Rightarrow> string \<Rightarrow> string" where
  "msg_renamed_table old_name new_name =
     ''Renamed table '' @ apos old_name @ '' to '' @ apos new_name"

definition msg_failed_table :: "string \<Rightarrow> string \<Rightarrow> string \<Rightarrow> string" where
  "msg_failed_table old_name new_name e =
     ''Failed to rename table '' @ apos old_name @ '' to '' @ apos new_name @ '': '' @ e"

definition msg_dry_table :: "string \<Rightarrow> string \<Rightarrow> string" where
  "msg_dry_table old_name new_name =
     ''(Dry run) Renaming table '' @ apos old_name @ '' to '' @ apos new_name"

definition msg_table_error :: "string \<Rightarrow> string" where
  "msg_table_error e = ''Error during table renaming: '' @ e"

definition msg_renamed_column :: "string \<Rightarrow> string \<Rightarrow> string \<Rightarrow> string" where
  "msg_renamed_column old_name table_name new_name =
     ''Renamed column '' @ apos old_name @ '' in table '' @ apos table_name
       @ '' to '' @ apos new_name"

definition msg_failed_column :: "string \<Rightarrow> string \<Rightarrow> string \<Rightarrow> string \<Rightarrow> string" where
  "msg_failed_column old_name table_name new_name e =
     ''Failed to rename column '' @ apos old_name @ '' in table '' @ apos table_name
       @ '' to '' @ apos new_name @ '': '' @ e"

definition msg_dry_column :: "string \<Rightarrow> string \<Rightarrow> string \<Rightarrow> string" where
  "msg_dry_column old_name table_name new_name =
     ''(Dry run) Renaming column '' @ apos old_name @ '' in table '' @ apos table_name
       @ '' to '' @ apos new_name"

definition msg_column_error :: "string \<Rightarrow> string" where
  "msg_column_error e = ''Error during column renaming: '' @ e"

subsection \<open>\<^verbatim>\<open>rename_tables\<close>\<close>

text \<open>
  The body of \<^verbatim>\<open>for i, old_name in enumerate(tables)\<close> after the assignment to
  \<^verbatim>\<open>table_mapping\<close> (lines 46 to 53): the statement is issued unless this is a dry
  run. An \<^verbatim>\<open>sqlite3.Error\<close> is caught and logged on the spot; any other exception
  passes the handler of line 50 (\<open>Some\<close>).
\<close>

definition apply_table_rename ::
  "'db cursor \<Rightarrow> bool \<Rightarrow> string \<Rightarrow> string \<Rightarrow> 'db \<Rightarrow> exn option \<times> event list \<times> 'db" where
  "apply_table_rename cursor dry_run old_name new_name db =
     (if \<not> dry_run then
        (case execute cursor db (alter_table_sql old_name new_name) of
           (Rows rows, db') \<Rightarrow>
             (None,
              [Execute (alter_table_sql old_name new_name) (Rows rows),
               Log INFO (msg_renamed_table old_name new_name)], db')
         | (Sqlite3_Error e, db') \<Rightarrow>
             (None,
              [Execute (alter_table_sql old_name new_name) (Sqlite3_Error e),
               Log ERROR (msg_failed_table old_name new_name e)], db')
         | (Other_Error x, db') \<Rightarrow>
             (Some x, [Execute (alter_table_sql old_name new_name) (Other_Error x)], db'))
      else (None, [Log INFO (msg_dry_table old_name new_name)], db))"

text \<open>
  The loop. It ends with the dictionary, or with the exception that left it (\<open>Inl\<close>), in
  which case the dictionary is lost.
\<close>

fun rename_tables_loop ::
  "'db cursor \<Rightarrow> string \<Rightarrow> bool \<Rightarrow> nat \<Rightarrow> string list \<Rightarrow> mapping \<Rightarrow> 'db
     \<Rightarrow> (exn + mapping) \<times> event list \<times> 'db" where
  "rename_tables_loop cursor prefix dry_run i [] table_mapping db =
     (Inr table_mapping, [], db)"
| "rename_tables_loop cursor prefix dry_run i (old_name # rest) table_mapping db =
     (let new_name = prefix @ str (i + 1);
          table_mapping' = AList.update old_name new_name table_mapping
      in case apply_table_rename cursor dry_run old_name new_name db of
           (Some x, evs, db') \<Rightarrow> (Inl x, evs, db')
         | (None, evs, db') \<Rightarrow>
             (case rename_tables_loop cursor prefix dry_run (i + 1) rest table_mapping' db' of
                (res, evs', db'') \<Rightarrow> (res, evs @ evs', db'')))"

text \<open>
  The function itself. An \<^verbatim>\<open>sqlite3.Error\<close> of the catalog query is caught by the outer
  handler (lines 56 to 58), which returns the empty dictionary; any other exception, of
  the catalog query, of the comprehension or of the loop, passes it and leaves the
  function.
\<close>

definition rename_tables ::
  "'db cursor \<Rightarrow> string \<Rightarrow> bool \<Rightarrow> 'db \<Rightarrow> (exn + mapping) \<times> event list \<times> 'db" where
  "rename_tables cursor prefix dry_run db =
     (case execute cursor db select_tables_sql of
        (Sqlite3_Error e, db1) \<Rightarrow>
          (Inr [],
           [Execute select_tables_sql (Sqlite3_Error e), Log ERROR (msg_table_error e)], db1)
      | (Other_Error x, db1) \<Rightarrow> (Inl x, [Execute select_tables_sql (Other_Error x)], db1)
      | (Rows rows, db1) \<Rightarrow>
          (case column 0 rows of
             Inl x \<Rightarrow> (Inl x, [Execute select_tables_sql (Rows rows)], db1)
           | Inr tables \<Rightarrow>
               (case rename_tables_loop cursor prefix dry_run 0 tables [] db1 of
                  (res, evs, db2) \<Rightarrow>
                    (res, Execute select_tables_sql (Rows rows) # evs, db2))))"

subsection \<open>\<^verbatim>\<open>rename_columns\<close>\<close>

text \<open>Lines 81 to 88, the counterpart of \<^const>\<open>apply_table_rename\<close> for one column.\<close>

definition apply_column_rename ::
  "'db cursor \<Rightarrow> bool \<Rightarrow> string \<Rightarrow> string \<Rightarrow> string \<Rightarrow> 'db
     \<Rightarrow> exn option \<times> event list \<times> 'db" where
  "apply_column_rename cursor dry_run table_name old_name new_name db =
     (if \<not> dry_run then
        (case execute cursor db (alter_column_sql table_name old_name new_name) of
           (Rows rows, db') \<Rightarrow>
             (None,
              [Execute (alter_column_sql table_name old_name new_name) (Rows rows),
               Log INFO (msg_renamed_column old_name table_name new_name)], db')
         | (Sqlite3_Error e, db') \<Rightarrow>
             (None,
              [Execute (alter_column_sql table_name old_name new_name) (Sqlite3_Error e),
               Log ERROR (msg_failed_column old_name table_name new_name e)], db')
         | (Other_Error x, db') \<Rightarrow>
             (Some x,
              [Execute (alter_column_sql table_name old_name new_name) (Other_Error x)], db'))
      else (None, [Log INFO (msg_dry_column old_name table_name new_name)], db))"

text \<open>
  The inner loop \<^verbatim>\<open>for i, old_name in enumerate(columns)\<close>. The dictionary
  \<^verbatim>\<open>column_mapping\<close> is local to one pass of the outer loop; the model returns it so
  that it can be spoken about, and the outer loop drops it as the source does. \<open>Inl\<close> is
  the exception that left the loop.
\<close>

fun rename_columns_of ::
  "'db cursor \<Rightarrow> string \<Rightarrow> bool \<Rightarrow> string \<Rightarrow> nat \<Rightarrow> string list \<Rightarrow> mapping \<Rightarrow> 'db
     \<Rightarrow> (exn + mapping) \<times> event list \<times> 'db" where
  "rename_columns_of cursor prefix dry_run table_name i [] column_mapping db =
     (Inr column_mapping, [], db)"
| "rename_columns_of cursor prefix dry_run table_name i (old_name # rest) column_mapping db =
     (let new_name = prefix @ str (i + 1);
          column_mapping' = AList.update old_name new_name column_mapping
      in case apply_column_rename cursor dry_run table_name old_name new_name db of
           (Some x, evs, db') \<Rightarrow> (Inl x, evs, db')
         | (None, evs, db') \<Rightarrow>
             (case rename_columns_of cursor prefix dry_run table_name (i + 1) rest
                     column_mapping' db' of
                (res, evs', db'') \<Rightarrow> (res, evs @ evs', db'')))"

text \<open>
  How the body of the \<^verbatim>\<open>try\<close> block (lines 72 to 88) ends: it runs to its end, or an
  \<^verbatim>\<open>sqlite3.Error\<close> of the \<^verbatim>\<open>PRAGMA\<close> leaves the loop for the handler of line 89, or
  another exception, of the \<^verbatim>\<open>PRAGMA\<close>, of the comprehension or of a column rename,
  leaves the function.
\<close>

datatype outcome = Finished | Raised_sqlite3_Error string | Raised exn

text \<open>The outer loop \<^verbatim>\<open>for table_name in table_mapping.values()\<close>.\<close>

fun rename_columns_loop ::
  "'db cursor \<Rightarrow> string \<Rightarrow> bool \<Rightarrow> string list \<Rightarrow> 'db \<Rightarrow> outcome \<times> event list \<times> 'db" where
  "rename_columns_loop cursor prefix dry_run [] db = (Finished, [], db)"
| "rename_columns_loop cursor prefix dry_run (table_name # rest) db =
     (case execute cursor db (table_info_sql table_name) of
        (Sqlite3_Error e, db1) \<Rightarrow>
          (Raised_sqlite3_Error e,
           [Execute (table_info_sql table_name) (Sqlite3_Error e)], db1)
      | (Other_Error x, db1) \<Rightarrow>
          (Raised x, [Execute (table_info_sql table_name) (Other_Error x)], db1)
      | (Rows rows, db1) \<Rightarrow>
          (case column 1 rows of
             Inl x \<Rightarrow> (Raised x, [Execute (table_info_sql table_name) (Rows rows)], db1)
           | Inr columns \<Rightarrow>
               (case rename_columns_of cursor prefix dry_run table_name 0 columns [] db1 of
                  (Inl x, evs, db2) \<Rightarrow>
                    (Raised x, Execute (table_info_sql table_name) (Rows rows) # evs, db2)
                | (Inr column_mapping, evs, db2) \<Rightarrow>
                    (case rename_columns_loop cursor prefix dry_run rest db2 of
                       (out, evs', db3) \<Rightarrow>
                         (out, Execute (table_info_sql table_name) (Rows rows) # evs @ evs',
                          db3)))))"

text \<open>
  The function returns nothing; the first component of the result is the exception
  that leaves it, if any.
\<close>

definition rename_columns ::
  "'db cursor \<Rightarrow> string \<Rightarrow> mapping \<Rightarrow> bool \<Rightarrow> 'db \<Rightarrow> exn option \<times> event list \<times> 'db" where
  "rename_columns cursor prefix table_mapping dry_run db =
     (case rename_columns_loop cursor prefix dry_run (map snd table_mapping) db of
        (Finished, evs, db') \<Rightarrow> (None, evs, db')
      | (Raised_sqlite3_Error e, evs, db') \<Rightarrow>
          (None, evs @ [Log ERROR (msg_column_error e)], db')
      | (Raised x, evs, db') \<Rightarrow> (Some x, evs, db'))"

subsection \<open>\<^verbatim>\<open>handle_foreign_key_constraints\<close>\<close>

definition msg_fk_warning :: string where
  "msg_fk_warning =
     ''Foreign key constraint handling is not fully implemented.  Manual review of constraints is recommended.''"

definition msg_fk_info :: string where
  "msg_fk_info =
     ''Foreign key constraint adjustments would be made here in a full implementation.''"

definition msg_fk_info_dry :: string where
  "msg_fk_info_dry =
     ''(Dry run) Foreign key constraint adjustments would be made here in a full implementation.''"

definition handle_foreign_key_constraints ::
  "'db cursor \<Rightarrow> mapping \<Rightarrow> bool \<Rightarrow> 'db \<Rightarrow> event list \<times> 'db" where
  "handle_foreign_key_constraints cursor table_mapping dry_run db =
     (Log WARNING msg_fk_warning
        # (if \<not> dry_run then [Log INFO msg_fk_info] else [Log INFO msg_fk_info_dry]),
      db)"

subsection \<open>The renaming part of \<^verbatim>\<open>main\<close>\<close>

text \<open>
  Lines 130 to 147 of \<^verbatim>\<open>main\<close>: the three calls, the commit, and the handlers that
  log whatever exception arrives. \<^verbatim>\<open>conn.commit()\<close> is the second operation of the
  database that the program uses; it raises \<^verbatim>\<open>sqlite3.Error\<close> (\<open>Some\<close>) or returns.
  Parsing the arguments, checking the path, and opening and closing the connection are
  outside the model.
\<close>

type_synonym 'db committer = "'db \<Rightarrow> string option \<times> 'db"

definition msg_completed :: string where
  "msg_completed = ''Database renaming completed successfully.''"

definition msg_dry_completed :: string where
  "msg_dry_completed = ''Dry run completed. No changes were applied to the database.''"

definition msg_database_error :: "string \<Rightarrow> string" where
  "msg_database_error e = ''Database error: '' @ e"

text \<open>\<^verbatim>\<open>str(e)\<close>; for the \<^verbatim>\<open>IndexError\<close> it is the text that indexing a tuple gives.\<close>

fun exn_text :: "exn \<Rightarrow> string" where
  "exn_text IndexError = ''tuple index out of range''"
| "exn_text (UnicodeEncodeError msg) = msg"

definition msg_value_error :: "exn \<Rightarrow> string" where
  "msg_value_error x = ''Value error: '' @ exn_text x"

definition msg_unexpected :: "exn \<Rightarrow> string" where
  "msg_unexpected x = ''An unexpected error occurred: '' @ exn_text x"

text \<open>
  The handlers of lines 141 to 148, tried in order. \<^verbatim>\<open>UnicodeEncodeError\<close> is a
  \<^verbatim>\<open>ValueError\<close> and stops at the second; \<^verbatim>\<open>IndexError\<close> reaches the last.
\<close>

fun handle_exception :: "exn \<Rightarrow> event" where
  "handle_exception (UnicodeEncodeError msg) =
     Log ERROR (msg_value_error (UnicodeEncodeError msg))"
| "handle_exception IndexError = Log ERROR (msg_unexpected IndexError)"

definition main_run ::
  "'db cursor \<Rightarrow> 'db committer \<Rightarrow> string \<Rightarrow> string \<Rightarrow> bool \<Rightarrow> 'db \<Rightarrow> event list \<times> 'db" where
  "main_run cursor commit prefix_table prefix_column dry_run db =
     (case rename_tables cursor prefix_table dry_run db of
        (Inl x, evs1, db1) \<Rightarrow> (evs1 @ [handle_exception x], db1)
      | (Inr table_mapping, evs1, db1) \<Rightarrow>
          (case rename_columns cursor prefix_column table_mapping dry_run db1 of
             (Some x, evs2, db2) \<Rightarrow> (evs1 @ evs2 @ [handle_exception x], db2)
           | (None, evs2, db2) \<Rightarrow>
               (case handle_foreign_key_constraints cursor table_mapping dry_run db2 of
                  (evs3, db3) \<Rightarrow>
                    (if \<not> dry_run then
                       (case commit db3 of
                          (None, db4) \<Rightarrow>
                            (evs1 @ evs2 @ evs3 @ [Commit None, Log INFO msg_completed], db4)
                        | (Some e, db4) \<Rightarrow>
                            (evs1 @ evs2 @ evs3
                               @ [Commit (Some e), Log ERROR (msg_database_error e)], db4))
                     else (evs1 @ evs2 @ evs3 @ [Log INFO msg_dry_completed], db3)))))"

subsection \<open>Quoted identifiers\<close>

text \<open>
  SQL writes an identifier that holds arbitrary text between double quotes, with every
  double quote of the text doubled; reading it back undoes the doubling and stops at the
  first double quote that is not doubled. These two functions say what it means for a
  statement to carry a name as a quoted identifier.
\<close>

fun double_quotes :: "string \<Rightarrow> string" where
  "double_quotes [] = []"
| "double_quotes (c # cs) =
     (if c = CHR 0x22 then CHR 0x22 # CHR 0x22 # double_quotes cs else c # double_quotes cs)"

definition quote_identifier :: "string \<Rightarrow> string" where
  "quote_identifier name = [CHR 0x22] @ double_quotes name @ [CHR 0x22]"

fun read_identifier_body :: "string \<Rightarrow> (string \<times> string) option" where
  "read_identifier_body [] = None"
| "read_identifier_body [c] = (if c = CHR 0x22 then Some ([], []) else None)"
| "read_identifier_body (c # d # cs) =
     (if c = CHR 0x22 then
        (if d = CHR 0x22
         then map_option (\<lambda>(name, rest). (CHR 0x22 # name, rest)) (read_identifier_body cs)
         else Some ([], d # cs))
      else map_option (\<lambda>(name, rest). (c # name, rest)) (read_identifier_body (d # cs)))"

definition read_quoted_identifier :: "string \<Rightarrow> (string \<times> string) option" where
  "read_quoted_identifier s =
     (case s of [] \<Rightarrow> None
      | c # cs \<Rightarrow> if c = CHR 0x22 then read_identifier_body cs else None)"

subsection \<open>A small database to run the functions on\<close>

text \<open>
  The cursor is a parameter of the model, so every theorem below holds for any
  database behaviour. To run the functions on concrete inputs a database is needed all
  the same. This one holds a list of tables, each with its list of columns, and answers
  the four statements of the program the way SQLite does on such a catalog: the catalog
  query lists the tables, \<^verbatim>\<open>PRAGMA table_info\<close> lists the columns of a table and yields no
  row for a table that does not exist, and a rename fails if its source is missing or
  its target is taken. Statements listed in \<open>sim_faults\<close> fail as they would on a locked
  database. Names are compared exactly.
\<close>

record sim_db =
  sim_tables :: "(string \<times> string list) list"
  sim_faults :: "string list"

datatype stmt =
    Select_Tables
  | Table_Info string
  | Rename_Table string string
  | Rename_Column string string string

fun strip_prefix :: "string \<Rightarrow> string \<Rightarrow> string option" where
  "strip_prefix [] s = Some s"
| "strip_prefix (p # ps) [] = None"
| "strip_prefix (p # ps) (c # cs) = (if p = c then strip_prefix ps cs else None)"

definition parse_table_info :: "string \<Rightarrow> stmt option" where
  "parse_table_info sql =
     (case strip_prefix ''PRAGMA table_info('' sql of None \<Rightarrow> None
      | Some s1 \<Rightarrow>
          (case read_quoted_identifier s1 of None \<Rightarrow> None
           | Some (t, s2) \<Rightarrow> if s2 = '');'' then Some (Table_Info t) else None))"

definition parse_rename_to :: "string \<Rightarrow> string \<Rightarrow> stmt option" where
  "parse_rename_to t s =
     (case strip_prefix '' RENAME TO '' s of None \<Rightarrow> None
      | Some s1 \<Rightarrow>
          (case read_quoted_identifier s1 of None \<Rightarrow> None
           | Some (n, s2) \<Rightarrow> if s2 = '';'' then Some (Rename_Table t n) else None))"

definition parse_rename_column :: "string \<Rightarrow> string \<Rightarrow> stmt option" where
  "parse_rename_column t s =
     (case strip_prefix '' RENAME COLUMN '' s of None \<Rightarrow> None
      | Some s1 \<Rightarrow>
          (case read_quoted_identifier s1 of None \<Rightarrow> None
           | Some (c, s2) \<Rightarrow>
               (case strip_prefix '' TO '' s2 of None \<Rightarrow> None
                | Some s3 \<Rightarrow>
                    (case read_quoted_identifier s3 of None \<Rightarrow> None
                     | Some (n, s4) \<Rightarrow>
                         if s4 = '';'' then Some (Rename_Column t c n) else None))))"

definition parse_alter :: "string \<Rightarrow> stmt option" where
  "parse_alter sql =
     (case strip_prefix ''ALTER TABLE '' sql of None \<Rightarrow> None
      | Some s1 \<Rightarrow>
          (case read_quoted_identifier s1 of None \<Rightarrow> None
           | Some (t, s2) \<Rightarrow>
               (case parse_rename_to t s2 of Some st \<Rightarrow> Some st
                | None \<Rightarrow> parse_rename_column t s2)))"

definition parse_sql :: "string \<Rightarrow> stmt option" where
  "parse_sql sql =
     (if sql = select_tables_sql then Some Select_Tables
      else case parse_table_info sql of Some st \<Rightarrow> Some st | None \<Rightarrow> parse_alter sql)"

text \<open>The rows of \<^verbatim>\<open>PRAGMA table_info\<close>: cid, name, type, notnull, dflt_value, pk.\<close>

fun table_info_rows :: "nat \<Rightarrow> string list \<Rightarrow> row list" where
  "table_info_rows cid [] = []"
| "table_info_rows cid (c # cs) =
     [str cid, c, ''TEXT'', ''0'', ''None'', ''0''] # table_info_rows (cid + 1) cs"

fun replace_key :: "string \<Rightarrow> string \<Rightarrow> (string \<times> 'a) list \<Rightarrow> (string \<times> 'a) list" where
  "replace_key old new [] = []"
| "replace_key old new ((k, v) # kvs) =
     (if k = old then (new, v) # kvs else (k, v) # replace_key old new kvs)"

fun replace_item :: "string \<Rightarrow> string \<Rightarrow> string list \<Rightarrow> string list" where
  "replace_item old new [] = []"
| "replace_item old new (c # cs) =
     (if c = old then new # cs else c # replace_item old new cs)"

definition run_stmt :: "stmt \<Rightarrow> sim_db \<Rightarrow> response \<times> sim_db" where
  "run_stmt st db =
     (case st of
        Select_Tables \<Rightarrow> (Inr (map (\<lambda>(t, cs). [t]) (sim_tables db)), db)
      | Table_Info t \<Rightarrow>
          (case map_of (sim_tables db) t of
             None \<Rightarrow> (Inr [], db)
           | Some cs \<Rightarrow> (Inr (table_info_rows 0 cs), db))
      | Rename_Table t n \<Rightarrow>
          (if map_of (sim_tables db) t = None then (Inl (''no such table: '' @ t), db)
           else if map_of (sim_tables db) n \<noteq> None
           then (Inl (''there is already another table or index with this name: '' @ n), db)
           else (Inr [], db\<lparr>sim_tables := replace_key t n (sim_tables db)\<rparr>))
      | Rename_Column t c n \<Rightarrow>
          (case map_of (sim_tables db) t of
             None \<Rightarrow> (Inl (''no such table: '' @ t), db)
           | Some cs \<Rightarrow>
               if c \<notin> set cs then (Inl (''no such column: '' @ quote_identifier c), db)
               else if n \<in> set cs then (Inl (''duplicate column name: '' @ n), db)
               else (Inr [],
                     db\<lparr>sim_tables :=
                          AList.update t (replace_item c n cs) (sim_tables db)\<rparr>)))"

definition sim_execute :: "sim_db cursor" where
  "sim_execute db sql =
     (if sql \<in> set (sim_faults db) then (Inl ''database is locked'', db)
      else case parse_sql sql of
             None \<Rightarrow> (Inl ''syntax error'', db)
           | Some st \<Rightarrow> run_stmt st db)"

definition sim_commit :: "sim_db committer" where
  "sim_commit db = (None, db)"

text \<open>The database of the specification's scenarios A and B.\<close>

definition scenario_db :: sim_db where
  "scenario_db =
     \<lparr>sim_tables = [(''users'', [''id'', ''name'']), (''orders'', [''id'', ''user_id''])],
      sim_faults = []\<rparr>"

subsection \<open>Vocabulary of the properties\<close>

text \<open>The generic names \<open>prefix1, \<dots>, prefixN\<close>, in this order.\<close>

definition generic_names :: "string \<Rightarrow> nat \<Rightarrow> string list" where
  "generic_names prefix n = map (\<lambda>i. prefix @ str i) [1..<n + 1]"

text \<open>
  The names \<open>xs\<close> paired with the generic names from \<open>prefix(i+1)\<close> on: what a loop that
  has reached index \<open>i\<close> still has to assign.
\<close>

definition numbered :: "string \<Rightarrow> nat \<Rightarrow> string list \<Rightarrow> (string \<times> string) list" where
  "numbered prefix i xs = zip xs (map (\<lambda>k. prefix @ str k) [Suc i..<Suc i + length xs])"

text \<open>
  The rename statements that a real run has to send for the given tables, and for the
  given columns of a table, in the order of the loop.
\<close>

definition table_statements :: "string \<Rightarrow> string list \<Rightarrow> string list" where
  "table_statements prefix tables =
     map (\<lambda>(old_name, new_name). alter_table_sql old_name new_name)
       (zip tables (generic_names prefix (length tables)))"

definition column_statements :: "string \<Rightarrow> string \<Rightarrow> string list \<Rightarrow> string list" where
  "column_statements prefix table_name columns =
     map (\<lambda>(old_name, new_name). alter_column_sql table_name old_name new_name)
       (zip columns (generic_names prefix (length columns)))"

text \<open>
  What the cursor does with a list of statements sent one after the other, each on the
  database the one before has left: the answers and the last database. Sending stops
  after a statement that raises something other than \<^verbatim>\<open>sqlite3.Error\<close>.
\<close>

fun run_all :: "'db cursor \<Rightarrow> string list \<Rightarrow> 'db \<Rightarrow> answer list \<times> 'db" where
  "run_all cursor [] db = ([], db)"
| "run_all cursor (sql # rest) db =
     (case execute cursor db sql of
        (Other_Error x, db') \<Rightarrow> ([Other_Error x], db')
      | (Rows rows, db') \<Rightarrow>
          (case run_all cursor rest db' of (rs, db'') \<Rightarrow> (Rows rows # rs, db''))
      | (Sqlite3_Error e, db') \<Rightarrow>
          (case run_all cursor rest db' of (rs, db'') \<Rightarrow> (Sqlite3_Error e # rs, db'')))"

text \<open>
  The exception of an answer that passes the handlers of the renaming loops, and the
  answers that they deal with: rows and \<^verbatim>\<open>sqlite3.Error\<close>.
\<close>

fun raised :: "answer \<Rightarrow> exn option" where
  "raised (Rows rows) = None"
| "raised (Sqlite3_Error e) = None"
| "raised (Other_Error x) = Some x"

definition caught :: "answer \<Rightarrow> bool" where
  "caught r = (raised r = None)"

text \<open>
  What one table contributes to the run when its rename statement is sent and answered
  by \<open>r\<close>: the statement itself and one log line, an error line exactly when the
  statement failed with \<^verbatim>\<open>sqlite3.Error\<close>; no line if it raised something else.
\<close>

fun table_attempt :: "string \<times> string \<Rightarrow> answer \<Rightarrow> event list" where
  "table_attempt (old_name, new_name) (Rows rows) =
     [Execute (alter_table_sql old_name new_name) (Rows rows),
      Log INFO (msg_renamed_table old_name new_name)]"
| "table_attempt (old_name, new_name) (Sqlite3_Error e) =
     [Execute (alter_table_sql old_name new_name) (Sqlite3_Error e),
      Log ERROR (msg_failed_table old_name new_name e)]"
| "table_attempt (old_name, new_name) (Other_Error x) =
     [Execute (alter_table_sql old_name new_name) (Other_Error x)]"

text \<open>The same for one column of the table \<open>table_name\<close>.\<close>

fun column_attempt :: "string \<Rightarrow> string \<times> string \<Rightarrow> answer \<Rightarrow> event list" where
  "column_attempt table_name (old_name, new_name) (Rows rows) =
     [Execute (alter_column_sql table_name old_name new_name) (Rows rows),
      Log INFO (msg_renamed_column old_name table_name new_name)]"
| "column_attempt table_name (old_name, new_name) (Sqlite3_Error e) =
     [Execute (alter_column_sql table_name old_name new_name) (Sqlite3_Error e),
      Log ERROR (msg_failed_column old_name table_name new_name e)]"
| "column_attempt table_name (old_name, new_name) (Other_Error x) =
     [Execute (alter_column_sql table_name old_name new_name) (Other_Error x)]"


text \<open>
  The scenario database after its tables were renamed, with a fault that makes the
  column listing of \<^verbatim>\<open>table_1\<close> fail.
\<close>

definition locked_info_db :: sim_db where
  "locked_info_db =
     \<lparr>sim_tables = [(''table_1'', [''id'', ''name'']), (''table_2'', [''id'', ''user_id''])],
      sim_faults = [table_info_sql ''table_1'']\<rparr>"

text \<open>A database whose only table has a double quote in its name.\<close>

definition quoted_name_db :: sim_db where
  \<open>quoted_name_db = \<lparr>sim_tables = [(''a"b'', [''x''])], sim_faults = []\<rparr>\<close>

text \<open>A database whose only table is named by a reserved word and has a column with a space.\<close>

definition reserved_name_db :: sim_db where
  "reserved_name_db = \<lparr>sim_tables = [(''order'', [''unit price''])], sim_faults = []\<rparr>"

text \<open>
  A prefix given on the command line with the byte \<^verbatim>\<open>80\<close> at its end, which is not
  UTF-8: Python holds it as \<^verbatim>\<open>t\<close> followed by the lone surrogate \<^verbatim>\<open>U+DC80\<close>.
\<close>

definition surrogate_prefix :: string where
  "surrogate_prefix = ''t'' @ [CHR 0x80]"



section \<open>Auxiliary facts\<close>

subsection \<open>Decimal rendering is injective\<close>

lemma digit_char_inj: "a < 10 \<Longrightarrow> b < 10 \<Longrightarrow> digit_char a = digit_char b \<Longrightarrow> a = b"
proof -
  assume a: "a < 10" and b: "b < 10" and e: "digit_char a = digit_char b"
  have d: "distinct ''0123456789''" by simp
  have "a < length ''0123456789''" "b < length ''0123456789''" using a b by simp_all
  with d e show ?thesis unfolding digit_char_def by (simp only: nth_eq_iff_index_eq)
qed

lemma str_nonempty: "str n \<noteq> []"
  by (subst str.simps) simp

lemma str_length_one: "length (str n) = Suc 0 \<longleftrightarrow> n < 10"
  by (subst str.simps) (simp add: str_nonempty)

lemma str_inj: "str m = str n \<Longrightarrow> m = n"
proof (induction m arbitrary: n rule: str.induct)
  case (1 m)
  show ?case
  proof (cases "m < 10")
    case True
    then have "length (str m) = Suc 0" by (simp add: str_length_one)
    then have n: "n < 10" using "1.prems" by (simp add: str_length_one)
    from True n "1.prems" have "[digit_char m] = [digit_char n]"
      by (simp add: str.simps [of m] str.simps [of n])
    with True n show ?thesis by (auto dest: digit_char_inj)
  next
    case False
    then have "length (str m) \<noteq> Suc 0" by (simp add: str_length_one)
    then have n: "\<not> n < 10" using "1.prems" by (simp add: str_length_one)
    from False n "1.prems"
    have "str (m div 10) @ [digit_char (m mod 10)] = str (n div 10) @ [digit_char (n mod 10)]"
      by (simp add: str.simps [of m] str.simps [of n])
    then have a: "str (m div 10) = str (n div 10)"
      and b: "digit_char (m mod 10) = digit_char (n mod 10)" by simp_all
    from "1.IH" [OF False a] have c: "m div 10 = n div 10" .
    have d: "m mod 10 = n mod 10"
      using digit_char_inj [of "m mod 10" "n mod 10"] b by simp
    from c d show ?thesis by (metis div_mult_mod_eq)
  qed
qed

subsection \<open>Events and dictionaries\<close>

lemma update_fresh: "k \<notin> fst ` set m \<Longrightarrow> AList.update k v m = m @ [(k, v)]"
  by (induction m) auto

lemma statements_append: "statements (xs @ ys) = statements xs @ statements ys"
  by (induction xs rule: statements.induct) simp_all

lemma log_lines_append: "log_lines (xs @ ys) = log_lines xs @ log_lines ys"
  by (induction xs rule: log_lines.induct) simp_all

lemma commits_append: "commits (xs @ ys) = commits xs + commits ys"
  by (induction xs rule: commits.induct) simp_all

subsection \<open>The call of the cursor\<close>

text \<open>The catalog query can be encoded, so its outcome is the answer of the database.\<close>

lemma encode_select: "encode_error select_tables_sql = None"
  by code_simp

lemma execute_select:
  "execute cursor db select_tables_sql =
     (case cursor db select_tables_sql of
        (Inl e, db') \<Rightarrow> (Sqlite3_Error e, db')
      | (Inr rows, db') \<Rightarrow> (Rows rows, db'))"
  by (simp add: execute_def encode_select)


lemma execute_db:
  "snd (execute cursor db sql) =
     (if encode_error sql = None then snd (cursor db sql) else db)"
  by (auto simp add: execute_def split: option.splits prod.splits sum.splits)

lemma execute_answer:
  "encode_error sql = None \<Longrightarrow>
   fst (execute cursor db sql) =
     (case fst (cursor db sql) of Inl e \<Rightarrow> Sqlite3_Error e | Inr rows \<Rightarrow> Rows rows)"
  by (simp add: execute_def split: prod.splits sum.splits)

subsection \<open>Generic names\<close>

lemma numbered_Nil [simp]: "numbered prefix i [] = []"
  by (simp add: numbered_def)

lemma numbered_Cons [simp]:
  "numbered prefix i (x # xs) = (x, prefix @ str (Suc i)) # numbered prefix (Suc i) xs"
proof -
  have up: "[Suc i..<Suc i + length (x # xs)] = Suc i # [Suc (Suc i)..<Suc (Suc i) + length xs]"
    by (subst upt_conv_Cons) simp_all
  show ?thesis unfolding numbered_def by (subst up) simp
qed

lemma numbered_zero: "numbered prefix 0 xs = zip xs (generic_names prefix (length xs))"
  by (simp add: numbered_def generic_names_def del: upt_Suc)

lemma generic_names_distinct: "distinct (generic_names prefix n)"
  unfolding generic_names_def by (simp add: distinct_map inj_on_def del: upt_Suc) (auto dest: str_inj)

lemma generic_names_length: "length (generic_names prefix n) = n"
  by (simp add: generic_names_def del: upt_Suc)

lemma table_statements_numbered:
  "table_statements prefix tables =
     map (\<lambda>(old_name, new_name). alter_table_sql old_name new_name) (numbered prefix 0 tables)"
  by (simp add: table_statements_def numbered_zero)

lemma column_statements_numbered:
  "column_statements prefix table_name columns =
     map (\<lambda>(old_name, new_name). alter_column_sql table_name old_name new_name)
       (numbered prefix 0 columns)"
  by (simp add: column_statements_def numbered_zero)

subsection \<open>The loop of \<^verbatim>\<open>rename_tables\<close> in closed form\<close>

lemma apply_table_rename_attempt:
  "execute cursor db (alter_table_sql t n) = (r, db') \<Longrightarrow>
   apply_table_rename cursor False t n db = (raised r, table_attempt (t, n) r, db')"
  by (cases r) (simp_all add: apply_table_rename_def)

lemma rename_tables_loop_mapping:
  "fst (rename_tables_loop cursor prefix dry_run i ts m db) = Inr m' \<Longrightarrow>
   distinct ts \<Longrightarrow> set ts \<inter> fst ` set m = {} \<Longrightarrow>
   m' = m @ numbered prefix i ts"
proof (induction ts arbitrary: i m db)
  case Nil
  then show ?case by simp
next
  case (Cons t ts)
  let ?new = "prefix @ str (Suc i)"
  from Cons.prems have fresh: "t \<notin> fst ` set m" by auto
  from Cons.prems have d: "distinct ts"
    and dj: "set ts \<inter> fst ` set (m @ [(t, ?new)]) = {}" by auto
  obtain x evs db' where a: "apply_table_rename cursor dry_run t ?new db = (x, evs, db')"
    by (cases "apply_table_rename cursor dry_run t ?new db")
  from Cons.prems(1) a have x: "x = None"
    by (cases x) (simp_all add: Let_def)
  from Cons.prems(1) a x
  have "fst (rename_tables_loop cursor prefix dry_run (Suc i) ts (m @ [(t, ?new)]) db') = Inr m'"
    by (simp add: update_fresh [OF fresh] Let_def split: prod.splits)
  from Cons.IH [OF this d dj] show ?case by simp
qed

lemma rename_tables_loop_run:
  "run_all cursor
     (map (\<lambda>(old_name, new_name). alter_table_sql old_name new_name) (numbered prefix i ts)) db
     = (rs, db') \<Longrightarrow>
   snd (rename_tables_loop cursor prefix False i ts m db) =
     (concat (map2 table_attempt (numbered prefix i ts) rs), db')
   \<and> (list_all caught rs \<longrightarrow>
        length rs = length ts
        \<and> (\<exists>m'. fst (rename_tables_loop cursor prefix False i ts m db) = Inr m'))"
proof (induction ts arbitrary: i m db rs db')
  case Nil
  then show ?case by simp
next
  case (Cons t ts)
  let ?new = "prefix @ str (Suc i)"
  let ?m = "AList.update t ?new m"
  let ?sqls = "map (\<lambda>(old_name, new_name). alter_table_sql old_name new_name)
                 (numbered prefix (Suc i) ts)"
  obtain r d1 where c: "execute cursor db (alter_table_sql t ?new) = (r, d1)"
    by (cases "execute cursor db (alter_table_sql t ?new)")
  note a = apply_table_rename_attempt [of cursor db t ?new r d1, OF c]
  show ?case
  proof (cases "raised r")
    case (Some x)
    then have r: "r = Other_Error x" by (cases r) simp_all
    from Cons.prems c r have "rs = [Other_Error x]" "db' = d1" by simp_all
    then show ?thesis using a r by (simp add: Let_def caught_def)
  next
    case None
    obtain rs' d2 where rest: "run_all cursor ?sqls d1 = (rs', d2)"
      by (cases "run_all cursor ?sqls d1")
    from Cons.prems c None rest have rs: "rs = r # rs'" and db': "db' = d2"
      by (cases r; simp)+
    from Cons.IH [OF rest, of ?m]
    have ih: "snd (rename_tables_loop cursor prefix False (Suc i) ts ?m d1) =
                (concat (map2 table_attempt (numbered prefix (Suc i) ts) rs'), d2)"
      and ih2: "list_all caught rs' \<longrightarrow>
                  length rs' = length ts
                  \<and> (\<exists>m'. fst (rename_tables_loop cursor prefix False (Suc i) ts ?m d1) = Inr m')"
      by simp_all
    obtain res evs' d3 where
      l: "rename_tables_loop cursor prefix False (Suc i) ts ?m d1 = (res, evs', d3)"
      by (cases "rename_tables_loop cursor prefix False (Suc i) ts ?m d1")
    have whole: "rename_tables_loop cursor prefix False i (t # ts) m db =
                   (res, table_attempt (t, ?new) r @ evs', d3)"
      using a None l by (simp add: Let_def)
    from ih l have e: "evs' = concat (map2 table_attempt (numbered prefix (Suc i) ts) rs')"
      and d: "d3 = d2" by simp_all
    have cr: "caught r" using None by (simp add: caught_def)
    have res: "fst (rename_tables_loop cursor prefix False (Suc i) ts ?m d1) = res"
      using l by simp
    have s: "snd (rename_tables_loop cursor prefix False i (t # ts) m db) =
               (concat (map2 table_attempt (numbered prefix i (t # ts)) rs), db')"
      by (simp only: whole e d rs db') simp
    have f: "list_all caught rs \<longrightarrow>
               length rs = length (t # ts)
               \<and> (\<exists>m'. fst (rename_tables_loop cursor prefix False i (t # ts) m db) = Inr m')"
      using ih2 by (simp only: whole rs res) (simp add: cr)
    from s f show ?thesis by (rule conjI)
  qed
qed

lemma rename_tables_loop_dry:
  "\<exists>m'. rename_tables_loop cursor prefix True i ts m db =
          (Inr m', map (\<lambda>(t, n). Log INFO (msg_dry_table t n)) (numbered prefix i ts), db)"
proof (induction ts arbitrary: i m db)
  case Nil
  then show ?case by simp
next
  case (Cons t ts)
  from Cons.IH [of "Suc i" "AList.update t (prefix @ str (Suc i)) m" db]
  show ?case by (auto simp add: apply_table_rename_def Let_def)
qed

lemma rename_tables_unfold:
  "cursor db select_tables_sql = (Inr rows, db1) \<Longrightarrow> column 0 rows = Inr tables \<Longrightarrow>
   rename_tables cursor prefix dry_run db =
     (fst (rename_tables_loop cursor prefix dry_run 0 tables [] db1),
      Execute select_tables_sql (Rows rows)
        # fst (snd (rename_tables_loop cursor prefix dry_run 0 tables [] db1)),
      snd (snd (rename_tables_loop cursor prefix dry_run 0 tables [] db1)))"
  by (simp add: rename_tables_def execute_select split: prod.splits)

lemma scenario_select:
  "sim_execute scenario_db select_tables_sql = (Inr [[''users''], [''orders'']], scenario_db)"
  by (simp add: sim_execute_def scenario_db_def parse_sql_def run_stmt_def)

subsection \<open>The loops of \<^verbatim>\<open>rename_columns\<close> in closed form\<close>

lemma apply_column_rename_attempt:
  "execute cursor db (alter_column_sql t c n) = (r, db') \<Longrightarrow>
   apply_column_rename cursor False t c n db = (raised r, column_attempt t (c, n) r, db')"
  by (cases r) (simp_all add: apply_column_rename_def)

lemma rename_columns_of_mapping:
  "fst (rename_columns_of cursor prefix dry_run table_name i cs m db) = Inr m' \<Longrightarrow>
   distinct cs \<Longrightarrow> set cs \<inter> fst ` set m = {} \<Longrightarrow>
   m' = m @ numbered prefix i cs"
proof (induction cs arbitrary: i m db)
  case Nil
  then show ?case by simp
next
  case (Cons c cs)
  let ?new = "prefix @ str (Suc i)"
  from Cons.prems have fresh: "c \<notin> fst ` set m" by auto
  from Cons.prems have d: "distinct cs"
    and dj: "set cs \<inter> fst ` set (m @ [(c, ?new)]) = {}" by auto
  obtain x evs db' where
    a: "apply_column_rename cursor dry_run table_name c ?new db = (x, evs, db')"
    by (cases "apply_column_rename cursor dry_run table_name c ?new db")
  from Cons.prems(1) a have x: "x = None"
    by (cases x) (simp_all add: Let_def)
  from Cons.prems(1) a x
  have "fst (rename_columns_of cursor prefix dry_run table_name (Suc i) cs
               (m @ [(c, ?new)]) db') = Inr m'"
    by (simp add: update_fresh [OF fresh] Let_def split: prod.splits)
  from Cons.IH [OF this d dj] show ?case by simp
qed

lemma rename_columns_of_run:
  "run_all cursor
     (map (\<lambda>(old_name, new_name). alter_column_sql table_name old_name new_name)
        (numbered prefix i cs)) db
     = (rs, db') \<Longrightarrow>
   snd (rename_columns_of cursor prefix False table_name i cs m db) =
     (concat (map2 (column_attempt table_name) (numbered prefix i cs) rs), db')
   \<and> (list_all caught rs \<longrightarrow>
        length rs = length cs
        \<and> (\<exists>m'. fst (rename_columns_of cursor prefix False table_name i cs m db) = Inr m'))"
proof (induction cs arbitrary: i m db rs db')
  case Nil
  then show ?case by simp
next
  case (Cons c cs)
  let ?new = "prefix @ str (Suc i)"
  let ?m = "AList.update c ?new m"
  let ?sqls = "map (\<lambda>(old_name, new_name). alter_column_sql table_name old_name new_name)
                 (numbered prefix (Suc i) cs)"
  obtain r d1 where q: "execute cursor db (alter_column_sql table_name c ?new) = (r, d1)"
    by (cases "execute cursor db (alter_column_sql table_name c ?new)")
  note a = apply_column_rename_attempt [of cursor db table_name c ?new r d1, OF q]
  show ?case
  proof (cases "raised r")
    case (Some x)
    then have r: "r = Other_Error x" by (cases r) simp_all
    from Cons.prems q r have "rs = [Other_Error x]" "db' = d1" by simp_all
    then show ?thesis using a r by (simp add: Let_def caught_def)
  next
    case None
    obtain rs' d2 where rest: "run_all cursor ?sqls d1 = (rs', d2)"
      by (cases "run_all cursor ?sqls d1")
    from Cons.prems q None rest have rs: "rs = r # rs'" and db': "db' = d2"
      by (cases r; simp)+
    from Cons.IH [OF rest, of ?m]
    have ih: "snd (rename_columns_of cursor prefix False table_name (Suc i) cs ?m d1) =
                (concat (map2 (column_attempt table_name) (numbered prefix (Suc i) cs) rs'), d2)"
      and ih2: "list_all caught rs' \<longrightarrow>
                  length rs' = length cs
                  \<and> (\<exists>m'. fst (rename_columns_of cursor prefix False table_name (Suc i) cs ?m d1)
                           = Inr m')"
      by simp_all
    obtain res evs' d3 where
      l: "rename_columns_of cursor prefix False table_name (Suc i) cs ?m d1 = (res, evs', d3)"
      by (cases "rename_columns_of cursor prefix False table_name (Suc i) cs ?m d1")
    have whole: "rename_columns_of cursor prefix False table_name i (c # cs) m db =
                   (res, column_attempt table_name (c, ?new) r @ evs', d3)"
      using a None l by (simp add: Let_def)
    from ih l
    have e: "evs' = concat (map2 (column_attempt table_name) (numbered prefix (Suc i) cs) rs')"
      and d: "d3 = d2" by simp_all
    have cr: "caught r" using None by (simp add: caught_def)
    have res: "fst (rename_columns_of cursor prefix False table_name (Suc i) cs ?m d1) = res"
      using l by simp
    have s: "snd (rename_columns_of cursor prefix False table_name i (c # cs) m db) =
               (concat (map2 (column_attempt table_name) (numbered prefix i (c # cs)) rs), db')"
      by (simp only: whole e d rs db') simp
    have f: "list_all caught rs \<longrightarrow>
               length rs = length (c # cs)
               \<and> (\<exists>m'. fst (rename_columns_of cursor prefix False table_name i (c # cs) m db)
                        = Inr m')"
      using ih2 by (simp only: whole rs res) (simp add: cr)
    from s f show ?thesis by (rule conjI)
  qed
qed

lemma rename_columns_of_dry:
  "\<exists>m'. rename_columns_of cursor prefix True table_name i cs m db =
          (Inr m', map (\<lambda>(c, n). Log INFO (msg_dry_column c table_name n))
                     (numbered prefix i cs), db)"
proof (induction cs arbitrary: i m db)
  case Nil
  then show ?case by simp
next
  case (Cons c cs)
  from Cons.IH [of "Suc i" "AList.update c (prefix @ str (Suc i)) m" db]
  show ?case by (auto simp add: apply_column_rename_def Let_def)
qed

lemma rename_columns_loop_append:
  "rename_columns_loop cursor prefix dry_run (xs @ ys) db =
     (case rename_columns_loop cursor prefix dry_run xs db of
        (Finished, evs1, db1) \<Rightarrow>
          (case rename_columns_loop cursor prefix dry_run ys db1 of
             (out, evs2, db2) \<Rightarrow> (out, evs1 @ evs2, db2))
      | other \<Rightarrow> other)"
proof (induction xs arbitrary: db)
  case Nil
  then show ?case by (simp split: prod.splits)
next
  case (Cons x xs)
  show ?case
    by (simp add: Cons.IH split: prod.splits sum.splits outcome.splits answer.splits)
qed

lemma scenario_users_info:
  "execute sim_execute scenario_db (table_info_sql ''users'') =
     (Rows [[''0'', ''id'', ''TEXT'', ''0'', ''None'', ''0''],
            [''1'', ''name'', ''TEXT'', ''0'', ''None'', ''0'']], scenario_db)"
  by code_simp

subsection \<open>Quoting\<close>

lemma double_quotes_plain: "CHR 0x22 \<notin> set s \<Longrightarrow> double_quotes s = s"
  by (induction s) auto

lemma plain_name_is_quoted:
  "CHR 0x22 \<notin> set old_name \<Longrightarrow> CHR 0x22 \<notin> set new_name \<Longrightarrow>
   alter_table_sql old_name new_name =
     ''ALTER TABLE '' @ quote_identifier old_name @ '' RENAME TO ''
       @ quote_identifier new_name @ '';''"
  by (simp add: alter_table_sql_def quote_identifier_def double_quotes_plain)

lemma read_identifier_body_quoted:
  "rest = [] \<or> hd rest \<noteq> CHR 0x22 \<Longrightarrow>
   read_identifier_body (double_quotes name @ CHR 0x22 # rest) = Some (name, rest)"
proof (induction name)
  case Nil
  then show ?case by (cases rest) auto
next
  case (Cons c name)
  then show ?case
    by (cases "double_quotes name @ CHR 0x22 # rest") auto
qed

lemma read_quoted_identifier_quoted:
  "rest = [] \<or> hd rest \<noteq> CHR 0x22 \<Longrightarrow>
   read_quoted_identifier (quote_identifier name @ rest) = Some (name, rest)"
  by (simp add: read_quoted_identifier_def quote_identifier_def read_identifier_body_quoted)

lemma reserved_word_and_space_rename:
  "snd (main_run sim_execute sim_commit ''table_'' ''column_'' False reserved_name_db) =
     \<lparr>sim_tables = [(''table_1'', [''column_1''])], sim_faults = []\<rparr>"
  by code_simp

subsection \<open>Dry runs issue queries only\<close>

lemma statements_dry_table_lines:
  "statements (map (\<lambda>(t, n). Log INFO (msg_dry_table t n)) xs) = []"
  by (induction xs) auto

lemma statements_dry_column_lines:
  "statements (map (\<lambda>(c, n). Log INFO (msg_dry_column c t n)) xs) = []"
  by (induction xs) auto

lemma commits_dry_table_lines:
  "commits (map (\<lambda>(t, n). Log INFO (msg_dry_table t n)) xs) = 0"
  by (induction xs) auto

lemma commits_dry_column_lines:
  "commits (map (\<lambda>(c, n). Log INFO (msg_dry_column c t n)) xs) = 0"
  by (induction xs) auto

lemma rename_tables_dry:
  "statements (fst (snd (rename_tables cursor prefix True db))) = [select_tables_sql]
   \<and> commits (fst (snd (rename_tables cursor prefix True db))) = 0
   \<and> snd (snd (rename_tables cursor prefix True db)) = snd (cursor db select_tables_sql)"
proof (cases "cursor db select_tables_sql")
  case (Pair r db1)
  show ?thesis
  proof (cases r)
    case (Inl e)
    with Pair show ?thesis by (simp add: rename_tables_def execute_select)
  next
    case (Inr rows)
    show ?thesis
    proof (cases "column 0 rows")
      case (Inl x)
      with Pair Inr show ?thesis by (simp add: rename_tables_def execute_select)
    next
      case tables: (Inr tables)
      have sel: "cursor db select_tables_sql = (Inr rows, db1)" using Pair Inr by simp
      from rename_tables_loop_dry [of cursor prefix 0 tables "[]" db1]
      obtain m' where
        "rename_tables_loop cursor prefix True 0 tables [] db1 =
           (Inr m', map (\<lambda>(t, n). Log INFO (msg_dry_table t n)) (numbered prefix 0 tables), db1)"
        by blast
      then show ?thesis
        by (simp add: rename_tables_unfold [where cursor = cursor and db = db, OF sel tables]
              sel statements_dry_table_lines commits_dry_table_lines)
    qed
  qed
qed

lemma rename_columns_loop_dry:
  "set (statements (fst (snd (rename_columns_loop cursor prefix True ts db))))
     \<subseteq> range table_info_sql
   \<and> commits (fst (snd (rename_columns_loop cursor prefix True ts db))) = 0
   \<and> ((\<forall>d t. snd (cursor d (table_info_sql t)) = d)
        \<longrightarrow> snd (snd (rename_columns_loop cursor prefix True ts db)) = db)"
proof (induction ts arbitrary: db)
  case Nil
  then show ?case by simp
next
  case (Cons t ts)
  obtain r db1 where q: "execute cursor db (table_info_sql t) = (r, db1)"
    by (cases "execute cursor db (table_info_sql t)")
  have pure: "(\<forall>d t. snd (cursor d (table_info_sql t)) = d) \<longrightarrow> db1 = db"
    using q execute_db [of cursor db "table_info_sql t"] by (auto split: if_splits)
  show ?case
  proof (cases r)
    case (Sqlite3_Error e)
    with q pure show ?thesis by simp
  next
    case (Other_Error x)
    with q pure show ?thesis by simp
  next
    case (Rows rows)
    show ?thesis
    proof (cases "column 1 rows")
      case (Inl x)
      with q Rows pure show ?thesis by simp
    next
      case cols: (Inr columns)
      have cols': "column (Suc 0) rows = Inr columns" using cols by simp
      from rename_columns_of_dry [of cursor prefix t 0 columns "[]" db1]
      obtain cm where run: "rename_columns_of cursor prefix True t 0 columns [] db1 =
              (Inr cm, map (\<lambda>(c, n). Log INFO (msg_dry_column c t n))
                         (numbered prefix 0 columns), db1)"
        by blast
      obtain out evs' db3 where
        rest: "rename_columns_loop cursor prefix True ts db1 = (out, evs', db3)"
        by (cases "rename_columns_loop cursor prefix True ts db1")
      from Cons.IH [of db1] rest have ih:
        "set (statements evs') \<subseteq> range table_info_sql" "commits evs' = 0"
        "(\<forall>d t. snd (cursor d (table_info_sql t)) = d) \<longrightarrow> db3 = db1"
        by simp_all
      have "rename_columns_loop cursor prefix True (t # ts) db =
              (out, Execute (table_info_sql t) (Rows rows)
                 # map (\<lambda>(c, n). Log INFO (msg_dry_column c t n)) (numbered prefix 0 columns)
                 @ evs', db3)"
        using q Rows cols' run rest by simp
      then show ?thesis
        using ih pure
        by (simp add: statements_append commits_append statements_dry_column_lines
              commits_dry_column_lines)
    qed
  qed
qed

lemma rename_columns_dry:
  "set (statements (fst (snd (rename_columns cursor prefix m True db))))
     \<subseteq> range table_info_sql
   \<and> commits (fst (snd (rename_columns cursor prefix m True db))) = 0
   \<and> ((\<forall>d t. snd (cursor d (table_info_sql t)) = d)
        \<longrightarrow> snd (snd (rename_columns cursor prefix m True db)) = db)"
  using rename_columns_loop_dry [of cursor prefix "map snd m" db]
  by (cases "rename_columns_loop cursor prefix True (map snd m) db")
     (auto simp add: rename_columns_def statements_append commits_append split: outcome.splits)

text \<open>The dictionary that the loop returns, if it returns one, depends on the names only.\<close>

lemma rename_tables_loop_mapping_any:
  "fst (rename_tables_loop cursor prefix dry_run i ts m db) = Inr m1 \<Longrightarrow>
   fst (rename_tables_loop cursor' prefix dry_run' i ts m db') = Inr m2 \<Longrightarrow>
   m1 = m2"
proof (induction ts arbitrary: i m db db')
  case Nil
  then show ?case by simp
next
  case (Cons t ts)
  let ?n = "prefix @ str (Suc i)"
  obtain x1 e1 d1 where a: "apply_table_rename cursor dry_run t ?n db = (x1, e1, d1)"
    by (cases "apply_table_rename cursor dry_run t ?n db")
  obtain x2 e2 d2 where b: "apply_table_rename cursor' dry_run' t ?n db' = (x2, e2, d2)"
    by (cases "apply_table_rename cursor' dry_run' t ?n db'")
  from Cons.prems(1) a have x1: "x1 = None" by (cases x1) (simp_all add: Let_def)
  from Cons.prems(2) b have x2: "x2 = None" by (cases x2) (simp_all add: Let_def)
  from Cons.prems(1) a x1
  have l1: "fst (rename_tables_loop cursor prefix dry_run (Suc i) ts (AList.update t ?n m) d1)
              = Inr m1"
    by (simp add: Let_def split: prod.splits)
  from Cons.prems(2) b x2
  have l2: "fst (rename_tables_loop cursor' prefix dry_run' (Suc i) ts (AList.update t ?n m) d2)
              = Inr m2"
    by (simp add: Let_def split: prod.splits)
  from Cons.IH [OF l1 l2] show ?case .
qed

lemma rename_tables_same_mapping:
  "fst (rename_tables cursor prefix False db) = Inr m \<Longrightarrow>
   fst (rename_tables cursor prefix True db) = Inr m"
proof (cases "cursor db select_tables_sql")
  case (Pair r db1)
  assume real: "fst (rename_tables cursor prefix False db) = Inr m"
  show ?thesis
  proof (cases r)
    case (Inl e)
    with Pair real show ?thesis by (simp add: rename_tables_def execute_select)
  next
    case (Inr rows)
    show ?thesis
    proof (cases "column 0 rows")
      case (Inl x)
      with Pair Inr real show ?thesis by (simp add: rename_tables_def execute_select)
    next
      case tables: (Inr tables)
      have sel: "cursor db select_tables_sql = (Inr rows, db1)" using Pair Inr by simp
      note unfold = rename_tables_unfold [where cursor = cursor and db = db, OF sel tables]
      from real have l1: "fst (rename_tables_loop cursor prefix False 0 tables [] db1) = Inr m"
        by (simp add: unfold)
      from rename_tables_loop_dry [of cursor prefix 0 tables "[]" db1]
      obtain m' where l2: "fst (rename_tables_loop cursor prefix True 0 tables [] db1) = Inr m'"
        by auto
      from rename_tables_loop_mapping_any [OF l1 l2] l2 show ?thesis
        by (simp add: unfold)
    qed
  qed
qed

lemma alter_is_no_query:
  "alter_table_sql old_name new_name \<notin> insert select_tables_sql (range table_info_sql)"
  "alter_column_sql table_name old_name new_name
     \<notin> insert select_tables_sql (range table_info_sql)"
  by (auto simp add: alter_table_sql_def alter_column_sql_def select_tables_sql_def
        table_info_sql_def)

lemma sim_queries_pure:
  "sql \<in> insert select_tables_sql (range table_info_sql) \<Longrightarrow> snd (sim_execute d sql) = d"
proof -
  assume "sql \<in> insert select_tables_sql (range table_info_sql)"
  then consider "sql = select_tables_sql" | t where "sql = table_info_sql t" by auto
  then show ?thesis
  proof cases
    case 1
    then show ?thesis by (simp add: sim_execute_def parse_sql_def run_stmt_def)
  next
    case 2
    have na: "parse_alter (table_info_sql t) = None"
      by (simp add: parse_alter_def table_info_sql_def)
    have ne: "table_info_sql t \<noteq> select_tables_sql"
      by (simp add: table_info_sql_def select_tables_sql_def)
    have "parse_sql (table_info_sql t) = None
          \<or> (\<exists>t'. parse_sql (table_info_sql t) = Some (Table_Info t'))"
      by (auto simp add: parse_sql_def na ne parse_table_info_def split: option.splits if_splits)
    then show ?thesis
      using 2 by (auto simp add: sim_execute_def run_stmt_def split: option.splits)
  qed
qed

subsection \<open>Two runs on related databases\<close>












subsection \<open>The handlers of \<^verbatim>\<open>main\<close>\<close>

lemma handle_exception_logs:
  "statements [handle_exception x] = []" "commits [handle_exception x] = 0"
  by (cases x; simp)+

section \<open>Properties\<close>

subsection \<open>The table mapping\<close>

text \<open>
  Claim C1 says that every run of \<^verbatim>\<open>rename_tables\<close> returns a mapping with one entry per
  table. A rename statement that cannot be encoded raises \<^verbatim>\<open>UnicodeEncodeError\<close>, which
  is no \<^verbatim>\<open>sqlite3.Error\<close>: it passes the handlers of lines 50 and 56, and the function
  is left without a return value. With a table prefix that ends in a lone surrogate the
  real run on the scenario database stops at the first rename statement: no mapping, and
  \<^verbatim>\<open>orders\<close> is never reached.
\<close>

theorem rename_tables_returns_no_mapping_counterexample:
  "rename_tables sim_execute surrogate_prefix False scenario_db =
     (Inl (UnicodeEncodeError (msg_surrogate 32 1 (CHR 0x80))),
      [Execute select_tables_sql (Rows [[''users''], [''orders'']]),
       Execute (alter_table_sql ''users'' (surrogate_prefix @ ''1''))
         (Other_Error (UnicodeEncodeError (msg_surrogate 32 1 (CHR 0x80))))],
      scenario_db)"
  by code_simp

text \<open>
  Claim C1, amended. Whenever the catalog query succeeds and lists the tables \<open>tables\<close>
  (their names are distinct, as table names of one database are), and the run is a dry
  run or none of its rename statements raises an exception other than \<^verbatim>\<open>sqlite3.Error\<close>,
  \<^verbatim>\<open>rename_tables\<close> returns a mapping with exactly one entry per table: its keys are the
  original names in discovery order, the value of the i-th table (counting from 1) is
  the prefix followed by i, and so the values are \<open>prefix1, \<dots>, prefixN\<close> without
  duplicates. Rename statements that fail with \<^verbatim>\<open>sqlite3.Error\<close> do not change this.
\<close>

theorem rename_tables_mapping:
  assumes sel: "cursor db select_tables_sql = (Inr rows, db1)"
    and col: "column 0 rows = Inr tables"
    and dist: "distinct tables"
    and sent: "dry_run
               \<or> list_all caught (fst (run_all cursor (table_statements prefix tables) db1))"
  shows "\<exists>m. fst (rename_tables cursor prefix dry_run db) = Inr m
           \<and> length m = length tables
           \<and> map fst m = tables
           \<and> map snd m = generic_names prefix (length tables)
           \<and> distinct (map snd m)"
proof -
  let ?m = "zip tables (generic_names prefix (length tables))"
  let ?loop = "rename_tables_loop cursor prefix dry_run 0 tables [] db1"
  have "\<exists>m'. fst ?loop = Inr m'"
  proof (cases dry_run)
    case True
    with rename_tables_loop_dry [of cursor prefix 0 tables "[]" db1] show ?thesis by auto
  next
    case False
    with sent
    have ok: "list_all caught (fst (run_all cursor (table_statements prefix tables) db1))"
      by simp
    obtain rs db2 where
      run: "run_all cursor
              (map (\<lambda>(old_name, new_name). alter_table_sql old_name new_name)
                 (numbered prefix 0 tables)) db1 = (rs, db2)"
      by (cases "run_all cursor
              (map (\<lambda>(old_name, new_name). alter_table_sql old_name new_name)
                 (numbered prefix 0 tables)) db1")
    from ok run have "list_all caught rs" by (simp add: table_statements_numbered)
    with rename_tables_loop_run [OF run, of "[]"] False show ?thesis by simp
  qed
  then obtain m' where res: "fst ?loop = Inr m'" by blast
  from rename_tables_loop_mapping [OF res dist] have "m' = ?m" by (simp add: numbered_zero)
  with res have "fst (rename_tables cursor prefix dry_run db) = Inr ?m"
    by (simp add: rename_tables_unfold [where cursor = cursor and db = db, OF sel col])
  moreover have "length ?m = length tables" by (simp add: generic_names_length)
  moreover have "map fst ?m = tables" by (simp add: generic_names_length)
  moreover have "map snd ?m = generic_names prefix (length tables)"
    by (simp add: generic_names_length)
  moreover have "distinct (map snd ?m)"
    by (simp add: generic_names_length generic_names_distinct)
  ultimately show ?thesis by blast
qed

theorem rename_tables_mapping_witness:
  "\<exists>m. fst (rename_tables sim_execute ''table_'' False scenario_db) = Inr m
       \<and> length m = length [''users'', ''orders'']
       \<and> map fst m = [''users'', ''orders'']
       \<and> map snd m = generic_names ''table_'' (length [''users'', ''orders''])
       \<and> distinct (map snd m)"
proof -
  have col: "column 0 [[''users''], [''orders'']] = Inr [''users'', ''orders'']" by simp
  have dist: "distinct [''users'', ''orders'']" by simp
  have "list_all caught
          (fst (run_all sim_execute (table_statements ''table_'' [''users'', ''orders''])
                  scenario_db))"
    by code_simp
  then have sent: "False \<or> list_all caught
          (fst (run_all sim_execute (table_statements ''table_'' [''users'', ''orders''])
                  scenario_db))" by simp
  from rename_tables_mapping
         [where cursor = sim_execute and db = scenario_db, OF scenario_select col dist sent]
  show ?thesis .
qed

subsection \<open>A rename statement that fails\<close>




subsection \<open>Failure of the catalog query\<close>

text \<open>
  Claim C6. If the enumeration of the tables fails, that is, the catalog query raises
  \<^verbatim>\<open>sqlite3.Error\<close>, then \<^verbatim>\<open>rename_tables\<close> returns the empty mapping; the catalog query
  is the only statement it has issued, so no rename statement was sent, and the failure
  is logged as an error.
\<close>

theorem rename_tables_catalog_failure:
  assumes "cursor db select_tables_sql = (Inl e, db1)"
  shows "rename_tables cursor prefix dry_run db =
           (Inr [],
            [Execute select_tables_sql (Sqlite3_Error e), Log ERROR (msg_table_error e)], db1)
         \<and> statements (fst (snd (rename_tables cursor prefix dry_run db))) =
             [select_tables_sql]"
  using assms by (simp add: rename_tables_def execute_select)

theorem rename_tables_catalog_failure_witness:
  "rename_tables sim_execute ''table_'' False (scenario_db\<lparr>sim_faults := [select_tables_sql]\<rparr>) =
     (Inr [],
      [Execute select_tables_sql (Sqlite3_Error ''database is locked''),
       Log ERROR (msg_table_error ''database is locked'')],
      scenario_db\<lparr>sim_faults := [select_tables_sql]\<rparr>)"
proof -
  have "sim_execute (scenario_db\<lparr>sim_faults := [select_tables_sql]\<rparr>) select_tables_sql =
          (Inl ''database is locked'', scenario_db\<lparr>sim_faults := [select_tables_sql]\<rparr>)"
    by (simp add: sim_execute_def)
  from rename_tables_catalog_failure
         [of sim_execute "scenario_db\<lparr>sim_faults := [select_tables_sql]\<rparr>"
             "''database is locked''" "scenario_db\<lparr>sim_faults := [select_tables_sql]\<rparr>"
             "''table_''" False, OF this]
  show ?thesis by simp
qed

subsection \<open>The constraint advisory\<close>


subsection \<open>Column numbering\<close>

text \<open>
  Claim C7 says that in every table that \<^verbatim>\<open>rename_columns\<close> processes the columns receive
  \<open>prefix1, \<dots>, prefixM\<close>, with \<open>M\<close> the number of columns of that table. A column rename
  that cannot be encoded raises \<^verbatim>\<open>UnicodeEncodeError\<close>, which passes the handlers of
  lines 85 and 89. With a column prefix that ends in a lone surrogate the real run stops
  at the first column of the first table: \<^verbatim>\<open>users\<close> has two columns, only \<^verbatim>\<open>id\<close> was
  given a name, and \<^verbatim>\<open>orders\<close> is not looked at.
\<close>

theorem column_numbering_incomplete_counterexample:
  "fst (rename_columns sim_execute surrogate_prefix
          [(''users'', ''users''), (''orders'', ''orders'')] False scenario_db) =
     Some (UnicodeEncodeError (msg_surrogate 44 1 (CHR 0x80)))
   \<and> statements (fst (snd (rename_columns sim_execute surrogate_prefix
          [(''users'', ''users''), (''orders'', ''orders'')] False scenario_db))) =
       [table_info_sql ''users'', alter_column_sql ''users'' ''id'' (surrogate_prefix @ ''1'')]"
  by code_simp

text \<open>
  Claim C7, amended. Whenever the outer loop of \<^verbatim>\<open>rename_columns\<close> stands at a table whose
  column listing succeeds with the (distinct) names \<open>columns\<close>, and the run is a dry run
  or none of the rename statements of these columns raises an exception other than
  \<^verbatim>\<open>sqlite3.Error\<close>, the inner loop starts again at index 0 with an empty mapping: the
  mapping it builds pairs the columns, in listing order, with \<open>prefix1, \<dots>, prefixM\<close>
  where \<open>M\<close> is the number of columns of this table. The events of the table use exactly
  these names, in a dry run as log lines and otherwise as rename statements with the
  answers the cursor gives to them. Neither the state reached by the tables before it
  nor the tables after it (\<open>rest\<close>) have any influence on the names, and the outer loop
  goes on with \<open>rest\<close>.
\<close>

theorem column_numbering_restarts:
  assumes info: "execute cursor db (table_info_sql table_name) = (Rows rows, db1)"
    and col: "column 1 rows = Inr columns"
    and dist: "distinct columns"
    and sent: "dry_run
               \<or> list_all caught
                    (fst (run_all cursor (column_statements prefix table_name columns) db1))"
  shows "\<exists>evs db2.
           rename_columns_of cursor prefix dry_run table_name 0 columns [] db1 =
             (Inr (zip columns (generic_names prefix (length columns))), evs, db2)
         \<and> evs = (if dry_run
                   then map (\<lambda>(c, n). Log INFO (msg_dry_column c table_name n))
                          (zip columns (generic_names prefix (length columns)))
                   else concat (map2 (column_attempt table_name)
                                  (zip columns (generic_names prefix (length columns)))
                                  (fst (run_all cursor
                                          (column_statements prefix table_name columns) db1))))
         \<and> db2 = (if dry_run then db1
                   else snd (run_all cursor (column_statements prefix table_name columns) db1))
         \<and> (\<exists>out evs' db3.
               rename_columns_loop cursor prefix dry_run rest db2 = (out, evs', db3)
             \<and> rename_columns_loop cursor prefix dry_run (table_name # rest) db =
                 (out, Execute (table_info_sql table_name) (Rows rows) # evs @ evs', db3))"
proof -
  let ?names = "generic_names prefix (length columns)"
  let ?run = "rename_columns_of cursor prefix dry_run table_name 0 columns [] db1"
  let ?sent = "run_all cursor (column_statements prefix table_name columns) db1"
  let ?evs = "if dry_run
              then map (\<lambda>(c, n). Log INFO (msg_dry_column c table_name n)) (zip columns ?names)
              else concat (map2 (column_attempt table_name) (zip columns ?names) (fst ?sent))"
  let ?db2 = "if dry_run then db1 else snd ?sent"
  have shape: "\<exists>m'. ?run = (Inr m', ?evs, ?db2)"
  proof (cases dry_run)
    case True
    with rename_columns_of_dry [of cursor prefix table_name 0 columns "[]" db1]
    show ?thesis by (simp add: numbered_zero)
  next
    case False
    with sent have ok: "list_all caught (fst ?sent)" by simp
    obtain rs d where
      run: "run_all cursor
              (map (\<lambda>(old_name, new_name). alter_column_sql table_name old_name new_name)
                 (numbered prefix 0 columns)) db1 = (rs, d)"
      by (cases "run_all cursor
              (map (\<lambda>(old_name, new_name). alter_column_sql table_name old_name new_name)
                 (numbered prefix 0 columns)) db1")
    then have run': "?sent = (rs, d)" by (simp add: column_statements_numbered)
    from ok run' have ok': "list_all caught rs" by simp
    from rename_columns_of_run [OF run, of "[]"] ok'
    have ev: "snd (rename_columns_of cursor prefix False table_name 0 columns [] db1) =
                (concat (map2 (column_attempt table_name) (zip columns ?names) rs), d)"
      and "\<exists>m'. fst (rename_columns_of cursor prefix False table_name 0 columns [] db1) = Inr m'"
      by (simp_all add: numbered_zero)
    then obtain m' where
      "fst (rename_columns_of cursor prefix False table_name 0 columns [] db1) = Inr m'"
      by blast
    with ev have "rename_columns_of cursor prefix False table_name 0 columns [] db1 =
                    (Inr m', concat (map2 (column_attempt table_name) (zip columns ?names) rs), d)"
      by (cases "rename_columns_of cursor prefix False table_name 0 columns [] db1") simp
    with False run' show ?thesis by simp
  qed
  then obtain m' where run: "?run = (Inr m', ?evs, ?db2)" by blast
  then have "fst ?run = Inr m'" by simp
  from rename_columns_of_mapping [OF this dist] have m: "m' = zip columns ?names"
    by (simp add: numbered_zero)
  have col': "column (Suc 0) rows = Inr columns" using col by simp
  obtain out evs' db3 where
    rest: "rename_columns_loop cursor prefix dry_run rest ?db2 = (out, evs', db3)"
    by (cases "rename_columns_loop cursor prefix dry_run rest ?db2")
  have loop: "rename_columns_loop cursor prefix dry_run (table_name # rest) db =
                (out, Execute (table_info_sql table_name) (Rows rows) # ?evs @ evs', db3)"
    using rest run by (simp add: info col')
  from run m rest loop show ?thesis by blast
qed

theorem column_numbering_restarts_witness:
  "(\<exists>evs db2.
      rename_columns_of sim_execute ''column_'' False ''users'' 0 [''id'', ''name''] []
          scenario_db =
        (Inr (zip [''id'', ''name''] (generic_names ''column_'' (length [''id'', ''name'']))),
         evs, db2)
    \<and> evs = (if False
              then map (\<lambda>(c, n). Log INFO (msg_dry_column c ''users'' n))
                     (zip [''id'', ''name'']
                        (generic_names ''column_'' (length [''id'', ''name''])))
              else concat (map2 (column_attempt ''users'')
                             (zip [''id'', ''name'']
                                (generic_names ''column_'' (length [''id'', ''name''])))
                             (fst (run_all sim_execute
                                     (column_statements ''column_'' ''users'' [''id'', ''name''])
                                     scenario_db))))
    \<and> db2 = (if False then scenario_db
              else snd (run_all sim_execute
                          (column_statements ''column_'' ''users'' [''id'', ''name''])
                          scenario_db))
    \<and> (\<exists>out evs' db3.
          rename_columns_loop sim_execute ''column_'' False [''orders''] db2 = (out, evs', db3)
        \<and> rename_columns_loop sim_execute ''column_'' False (''users'' # [''orders''])
              scenario_db =
            (out,
             Execute (table_info_sql ''users'')
               (Rows [[''0'', ''id'', ''TEXT'', ''0'', ''None'', ''0''],
                      [''1'', ''name'', ''TEXT'', ''0'', ''None'', ''0'']]) # evs @ evs',
             db3)))
   \<and> statements (fst (snd (rename_columns_loop sim_execute ''column_'' False
                             [''users'', ''orders''] scenario_db))) =
       [table_info_sql ''users'',
        alter_column_sql ''users'' ''id'' ''column_1'',
        alter_column_sql ''users'' ''name'' ''column_2'',
        table_info_sql ''orders'',
        alter_column_sql ''orders'' ''id'' ''column_1'',
        alter_column_sql ''orders'' ''user_id'' ''column_2'']"
proof -
  have col: "column 1 [[''0'', ''id'', ''TEXT'', ''0'', ''None'', ''0''],
                       [''1'', ''name'', ''TEXT'', ''0'', ''None'', ''0'']] =
               Inr [''id'', ''name'']" by simp
  have dist: "distinct [''id'', ''name'']" by simp
  have "list_all caught
          (fst (run_all sim_execute (column_statements ''column_'' ''users'' [''id'', ''name''])
                  scenario_db))"
    by code_simp
  then have sent: "False \<or> list_all caught
          (fst (run_all sim_execute (column_statements ''column_'' ''users'' [''id'', ''name''])
                  scenario_db))" by simp
  have both: "statements (fst (snd (rename_columns_loop sim_execute ''column_'' False
                             [''users'', ''orders''] scenario_db))) =
       [table_info_sql ''users'',
        alter_column_sql ''users'' ''id'' ''column_1'',
        alter_column_sql ''users'' ''name'' ''column_2'',
        table_info_sql ''orders'',
        alter_column_sql ''orders'' ''id'' ''column_1'',
        alter_column_sql ''orders'' ''user_id'' ''column_2'']"
    by code_simp
  from column_numbering_restarts
         [where cursor = sim_execute and db = scenario_db and rest = "[''orders'']",
          OF scenario_users_info col dist sent] both
  show ?thesis by (rule conjI)
qed

subsection \<open>Failure of a column listing\<close>

text \<open>
  Claim C5 says that a failed column listing skips that table only and that the tables
  after it are still processed. The \<^verbatim>\<open>try\<close> block of \<^verbatim>\<open>rename_columns\<close> encloses the whole
  loop, so the handler is reached by leaving the loop. In the database below the listing
  of \<^verbatim>\<open>table_1\<close> fails: the error is logged and \<^verbatim>\<open>table_2\<close> is never looked at.
\<close>

theorem rename_columns_skips_later_tables_counterexample:
  "rename_columns sim_execute ''column_''
       [(''users'', ''table_1''), (''orders'', ''table_2'')] False locked_info_db =
     (None,
      [Execute (table_info_sql ''table_1'') (Sqlite3_Error ''database is locked''),
       Log ERROR (msg_column_error ''database is locked'')],
      locked_info_db)
   \<and> table_info_sql ''table_2''
       \<notin> set (statements (fst (snd (rename_columns sim_execute ''column_''
               [(''users'', ''table_1''), (''orders'', ''table_2'')] False locked_info_db))))"
  by code_simp

text \<open>
  Claim C5, amended. If the column listing of one table fails with \<^verbatim>\<open>sqlite3.Error\<close>,
  \<^verbatim>\<open>rename_columns\<close> logs the failure once and returns: that table and all tables after
  it in the mapping are left out, no further statement is issued, and what was done for
  the tables before it stays as it is.
\<close>

theorem rename_columns_aborts_on_failed_listing:
  assumes before: "rename_columns_loop cursor prefix dry_run (map snd m1) db = (Finished, evs1, db1)"
    and fails: "execute cursor db1 (table_info_sql new_name) = (Sqlite3_Error e, db2)"
  shows "rename_columns cursor prefix (m1 @ (old_name, new_name) # m2) dry_run db =
           (None,
            evs1 @ [Execute (table_info_sql new_name) (Sqlite3_Error e),
                    Log ERROR (msg_column_error e)],
            db2)"
  by (simp add: rename_columns_def rename_columns_loop_append before fails)

theorem rename_columns_aborts_on_failed_listing_witness:
  "rename_columns sim_execute ''column_''
       ([] @ (''users'', ''table_1'') # [(''orders'', ''table_2'')]) False locked_info_db =
     (None,
      [] @ [Execute (table_info_sql ''table_1'') (Sqlite3_Error ''database is locked''),
            Log ERROR (msg_column_error ''database is locked'')],
      locked_info_db)"
proof -
  have before: "rename_columns_loop sim_execute ''column_'' False (map snd []) locked_info_db =
                  (Finished, [], locked_info_db)" by simp
  have fails: "execute sim_execute locked_info_db (table_info_sql ''table_1'') =
                 (Sqlite3_Error ''database is locked'', locked_info_db)"
    by code_simp
  from rename_columns_aborts_on_failed_listing
         [where cursor = sim_execute and db = locked_info_db, OF before fails]
  show ?thesis .
qed

subsection \<open>Which table name the column listing uses\<close>

text \<open>
  Claim C3 says that the columns of a table are read under the name that identifies the
  table at that moment, so under the original name in a dry run. The loop of
  \<^verbatim>\<open>rename_columns\<close> runs over \<^verbatim>\<open>table_mapping.values()\<close>, the new names, in every mode.
  In a dry run of the scenario database the tables are still called \<^verbatim>\<open>users\<close> and
  \<^verbatim>\<open>orders\<close>, the listings ask for \<^verbatim>\<open>table_1\<close> and \<^verbatim>\<open>table_2\<close>, which do not exist, no
  column is found, and the dry-run lines for columns (line 88 of the source) never
  appear.
\<close>

theorem dry_run_lists_columns_under_new_names:
  "statements (fst (main_run sim_execute sim_commit ''table_'' ''column_'' True scenario_db)) =
     [select_tables_sql, table_info_sql ''table_1'', table_info_sql ''table_2'']
   \<and> log_lines (fst (main_run sim_execute sim_commit ''table_'' ''column_'' True scenario_db)) =
       [(INFO, msg_dry_table ''users'' ''table_1''),
        (INFO, msg_dry_table ''orders'' ''table_2''),
        (WARNING, msg_fk_warning),
        (INFO, msg_fk_info_dry),
        (INFO, msg_dry_completed)]
   \<and> snd (main_run sim_execute sim_commit ''table_'' ''column_'' True scenario_db) = scenario_db"
  by code_simp

subsection \<open>Dry runs\<close>

text \<open>
  Claim C2 says that a dry run issues no mutating statement and returns the mapping that
  the real run returns. The first half holds. The second does not hold for a real run
  that is ended by an exception other than \<^verbatim>\<open>sqlite3.Error\<close>: with a table prefix that
  ends in a lone surrogate the dry run returns its mapping, while the real run raises
  \<^verbatim>\<open>UnicodeEncodeError\<close> at the first rename statement and returns none.
\<close>

theorem dry_run_mapping_differs_counterexample:
  "fst (rename_tables sim_execute surrogate_prefix True reserved_name_db) =
     Inr [(''order'', surrogate_prefix @ ''1'')]
   \<and> fst (rename_tables sim_execute surrogate_prefix False reserved_name_db) =
       Inl (UnicodeEncodeError (msg_surrogate 32 1 (CHR 0x80)))
   \<and> fst (rename_tables sim_execute surrogate_prefix True reserved_name_db) \<noteq>
       fst (rename_tables sim_execute surrogate_prefix False reserved_name_db)"
  by code_simp

text \<open>
  Claim C2, amended. In a dry run (\<^verbatim>\<open>dry_run\<close> true) the renaming part of \<^verbatim>\<open>main\<close> never
  commits, and every statement it issues is the catalog query or a
  \<^verbatim>\<open>PRAGMA table_info\<close>: no rename statement of \<^verbatim>\<open>rename_tables\<close> or \<^verbatim>\<open>rename_columns\<close> is
  sent. Hence, on a database that answers these two kinds of query without changing, the
  database at the end of the run is the database at its start. Whenever the real run of
  \<^verbatim>\<open>rename_tables\<close> from the same database returns a mapping, the dry run returns the
  same mapping.
\<close>

theorem dry_run_issues_no_mutation:
  "commits (fst (main_run cursor commit prefix_table prefix_column True db)) = 0
   \<and> set (statements (fst (main_run cursor commit prefix_table prefix_column True db)))
       \<subseteq> insert select_tables_sql (range table_info_sql)
   \<and> (\<forall>old_name new_name. alter_table_sql old_name new_name
         \<notin> set (statements (fst (main_run cursor commit prefix_table prefix_column True db))))
   \<and> (\<forall>table_name old_name new_name. alter_column_sql table_name old_name new_name
         \<notin> set (statements (fst (main_run cursor commit prefix_table prefix_column True db))))
   \<and> ((\<forall>d sql. sql \<in> insert select_tables_sql (range table_info_sql)
                 \<longrightarrow> snd (cursor d sql) = d)
        \<longrightarrow> snd (main_run cursor commit prefix_table prefix_column True db) = db)
   \<and> (\<forall>m. fst (rename_tables cursor prefix_table False db) = Inr m
          \<longrightarrow> fst (rename_tables cursor prefix_table True db) = Inr m)"
proof -
  let ?run = "main_run cursor commit prefix_table prefix_column True db"
  let ?Q = "insert select_tables_sql (range table_info_sql)"
  obtain res evs1 db1 where rt: "rename_tables cursor prefix_table True db = (res, evs1, db1)"
    by (cases "rename_tables cursor prefix_table True db")
  from rename_tables_dry [of cursor prefix_table db] rt
  have t1: "statements evs1 = [select_tables_sql]" and t2: "commits evs1 = 0"
    and t3: "db1 = snd (cursor db select_tables_sql)" by simp_all
  have main: "commits (fst ?run) = 0 \<and> set (statements (fst ?run)) \<subseteq> ?Q
      \<and> ((\<forall>d sql. sql \<in> ?Q \<longrightarrow> snd (cursor d sql) = d) \<longrightarrow> snd ?run = db)"
  proof (cases res)
    case (Inl x)
    with rt t1 t2 t3 show ?thesis
      by (simp add: main_run_def statements_append commits_append handle_exception_logs)
  next
    case (Inr m)
    obtain x evs2 db2 where rc: "rename_columns cursor prefix_column m True db1 = (x, evs2, db2)"
      by (cases "rename_columns cursor prefix_column m True db1")
    from rename_columns_dry [of cursor prefix_column m db1] rc
    have c1: "set (statements evs2) \<subseteq> range table_info_sql" and c2: "commits evs2 = 0"
      and c3: "(\<forall>d t. snd (cursor d (table_info_sql t)) = d) \<longrightarrow> db2 = db1" by simp_all
    have pure: "(\<forall>d sql. sql \<in> ?Q \<longrightarrow> snd (cursor d sql) = d) \<longrightarrow> db2 = db"
      using c3 t3 by auto
    show ?thesis
      using rt Inr rc t1 t2 c1 c2 pure
      by (cases x)
         (auto simp add: main_run_def handle_foreign_key_constraints_def statements_append
            commits_append handle_exception_logs)
  qed
  then have sub: "set (statements (fst ?run)) \<subseteq> ?Q" by simp
  have a1: "\<forall>old_name new_name. alter_table_sql old_name new_name \<notin> set (statements (fst ?run))"
    using sub alter_is_no_query(1) by blast
  have a2: "\<forall>table_name old_name new_name.
              alter_column_sql table_name old_name new_name \<notin> set (statements (fst ?run))"
    using sub alter_is_no_query(2) by blast
  have same: "\<forall>m. fst (rename_tables cursor prefix_table False db) = Inr m
                \<longrightarrow> fst (rename_tables cursor prefix_table True db) = Inr m"
    using rename_tables_same_mapping [of cursor prefix_table db] by blast
  from main a1 a2 same show ?thesis by blast
qed

theorem dry_run_issues_no_mutation_witness:
  "commits (fst (main_run sim_execute sim_commit ''table_'' ''column_'' True scenario_db)) = 0
   \<and> set (statements (fst (main_run sim_execute sim_commit ''table_'' ''column_'' True
            scenario_db)))
       \<subseteq> insert select_tables_sql (range table_info_sql)
   \<and> snd (main_run sim_execute sim_commit ''table_'' ''column_'' True scenario_db) = scenario_db
   \<and> fst (rename_tables sim_execute ''table_'' False scenario_db) =
       Inr [(''users'', ''table_1''), (''orders'', ''table_2'')]
   \<and> fst (rename_tables sim_execute ''table_'' True scenario_db) =
       Inr [(''users'', ''table_1''), (''orders'', ''table_2'')]"
proof -
  have real: "fst (rename_tables sim_execute ''table_'' False scenario_db) =
                Inr [(''users'', ''table_1''), (''orders'', ''table_2'')]"
    by code_simp
  from dry_run_issues_no_mutation
         [of sim_execute sim_commit "''table_''" "''column_''" scenario_db]
       sim_queries_pure real
  show ?thesis by blast
qed

subsection \<open>Names inside the statements\<close>

text \<open>
  Claim C8 says that every name, whatever text it holds, is embedded in the rename
  statements as a quoted identifier. The f-strings put the name between double quotes
  but do not double a double quote inside the name. For the table name \<^verbatim>\<open>a"b\<close> the
  statement built is not the one that carries the name as a quoted identifier: read as
  SQL, its first identifier is \<^verbatim>\<open>a\<close>, and the rest is no valid statement, so the rename
  fails and the table keeps its name. (For names without a double quote the statement
  is the quoted one, see \<open>plain_name_is_quoted\<close>, and names with spaces or reserved words
  do get renamed, see \<open>reserved_word_and_space_rename\<close>.)
\<close>

theorem embedded_quote_is_not_escaped:
  \<open>alter_table_sql ''a"b'' ''table_1'' = ''ALTER TABLE "a"b" RENAME TO "table_1";''
   \<and> alter_table_sql ''a"b'' ''table_1'' \<noteq>
       ''ALTER TABLE '' @ quote_identifier ''a"b'' @ '' RENAME TO ''
         @ quote_identifier ''table_1'' @ '';''
   \<and> read_quoted_identifier (drop (length ''ALTER TABLE '') (alter_table_sql ''a"b'' ''table_1''))
       = Some (''a'', ''b" RENAME TO "table_1";'')
   \<and> log_lines (fst (snd (rename_tables sim_execute ''table_'' False quoted_name_db))) =
       [(ERROR, msg_failed_table ''a"b'' ''table_1'' ''syntax error'')]
   \<and> snd (snd (rename_tables sim_execute ''table_'' False quoted_name_db)) = quoted_name_db\<close>
  by code_simp

subsection \<open>Determinism\<close>



end
